theory Spec2Isabelle
  imports Main
begin

section \<open>The API router of rapid-prereview: data model\<close>

text \<open>
  The router file registers Express handlers. A handler is modelled by what it does to
  its collaborators: every outward call it makes (on \<open>res\<close>, \<open>next\<close>, \<open>req.db\<close>,
  \<open>req.cache\<close>, the upstream stream \<open>s\<close>, \<open>resolve\<close>) is appended to a list of
  effects, in the order of the calls.

  The middlewares in front of a handler (\<open>cors\<close>, \<open>parseQuery\<close>, \<open>cache\<close>, the JSON body
  parser) are imported from other files: the model of a handler starts when the handler is
  called.
\<close>

text \<open>JSON values, as \<open>JSON.parse\<close> returns them and \<open>res.json\<close> sends them.\<close>

datatype json =
    JNull
  | JBool bool
  | JNum int
  | JStr string
  | JArr "json list"
  | JObj "(string \<times> json) list"

text \<open>
  A value of \<open>req.query\<close> under a key: absent (\<open>undefined\<close>), a string, or the arrays and
  objects Express builds from repeated and bracketed keys.
\<close>

datatype qvalue =
    QUndefined
  | QString string
  | QArray "qvalue list"
  | QObject "(string \<times> qvalue) list"

text \<open>
  What is passed to \<open>next\<close> or thrown: the value \<open>createError(status, message)\<close>
  (the helper is imported from \<open>../utils/errors\<close>; the model keeps its two arguments), or any
  other error value, named by a string.
\<close>

datatype error =
    HttpError nat string
  | Fault string

datatype source = StreamPreprints | StreamActions

datatype effect =
    SetHeader string string
  | Status nat
  | ResWrite string
  | ResEnd
  | ResJson json
  | Next error
  | DbStream source json
  | DbGet string
  | DbPost json json
  | Destroy
  | Callback string
  | ReqCache json
  | Resolve qvalue json

section \<open>The streaming search handlers: GET /preprint and GET /action\<close>

text \<open>
  The two handlers differ only in the method of \<open>req.db\<close> that opens the upstream stream
  \<open>s\<close>. After the handler has returned, everything happens in the listeners it registered
  on \<open>s\<close>, so the model is the handler's state and one function per listener.

  The upstream stream and the client connection are the environment. What they do is a
  list of events: the \<open>response\<close>, \<open>data\<close>, \<open>error\<close> and \<open>end\<close> events of \<open>s\<close>, and the
  \<open>close\<close> event of \<open>res\<close> when the remote peer goes away. An \<open>error\<close> event carries,
  besides the error, what the call \<open>s.destroy()\<close> made by its listener does: \<open>None\<close> when it
  returns, \<open>Some x\<close> when it throws \<open>x\<close>.
\<close>

datatype event =
    Response nat
  | Data string
  | Error error "string option"
  | End
  | ClientClose

text \<open>
  The state: the variable \<open>hasErrored\<close>; the bytes concat-stream has collected; whether
  each of the two pipes is still attached (a pipe detaches when \<open>s\<close> ends or fails and
  when its destination closes); an exception that no one caught; and the effects so far.
\<close>

record sstate =
  hasErrored :: bool
  buffer :: string
  concat_piped :: bool
  res_piped :: bool
  uncaught :: "error option"
  trace :: "effect list"

text \<open>
  A listener either returns or throws; the assignments and calls it made before throwing
  stay made, so the state comes back in both cases.
\<close>

datatype outcome = Returned | Threw error

definition emitted :: "effect \<Rightarrow> sstate \<Rightarrow> sstate" where
  "emitted x st = st\<lparr>trace := trace st @ [x]\<rparr>"

definition try_catch ::
  "(outcome \<times> sstate) \<Rightarrow> (error \<Rightarrow> sstate \<Rightarrow> outcome \<times> sstate) \<Rightarrow> outcome \<times> sstate" where
  "try_catch r handler = (case r of (Returned, st) \<Rightarrow> (Returned, st) | (Threw x, st) \<Rightarrow> handler x st)"

text \<open>
  The body of the handler of GET /preprint, up to its return:
  \<^verbatim>\<open>res.setHeader('content-type', 'application/json');
  let hasErrored = false;
  const s = req.db.streamPreprints(req.query);
  s.on('response', ...); s.on('error', ...);
  s.pipe(concatStream(...)); s.pipe(res);\<close>
  The handler of GET /action is the same text with \<open>req.db.streamActions\<close>; the
  listeners of the two handlers are the same text too, and are modelled once.
\<close>

definition get_preprint :: "json \<Rightarrow> sstate" where
  "get_preprint query =
     \<lparr>hasErrored = False, buffer = [], concat_piped = True, res_piped = True, uncaught = None,
      trace = [SetHeader ''content-type'' ''application/json'', DbStream StreamPreprints query]\<rparr>"

definition get_action :: "json \<Rightarrow> sstate" where
  "get_action query =
     \<lparr>hasErrored = False, buffer = [], concat_piped = True, res_piped = True, uncaught = None,
      trace = [SetHeader ''content-type'' ''application/json'', DbStream StreamActions query]\<rparr>"

fun stream_handler :: "source \<Rightarrow> json \<Rightarrow> sstate" where
  "stream_handler StreamPreprints query = get_preprint query"
| "stream_handler StreamActions query = get_action query"

text \<open>\<^verbatim>\<open>s.on('response', response => { res.status(response.statusCode); })\<close>\<close>

definition on_response :: "nat \<Rightarrow> sstate \<Rightarrow> outcome \<times> sstate" where
  "on_response statusCode st = (Returned, emitted (Status statusCode) st)"

text \<open>The call \<open>s.destroy()\<close>: it is made, and returns or throws as the environment says.\<close>

definition s_destroy :: "string option \<Rightarrow> sstate \<Rightarrow> outcome \<times> sstate" where
  "s_destroy fault st =
     (case fault of None \<Rightarrow> (Returned, emitted Destroy st)
                  | Some x \<Rightarrow> (Threw (Fault x), emitted Destroy st))"

text \<open>
  \<^verbatim>\<open>s.on('error', err => {
    if (!hasErrored) { hasErrored = true; next(err); }
    try { s.destroy(); } catch (err) { /* noop */ }
  })\<close>
\<close>

definition on_error :: "error \<Rightarrow> string option \<Rightarrow> sstate \<Rightarrow> outcome \<times> sstate" where
  "on_error err fault st =
     (let st1 = (if \<not> hasErrored st then emitted (Next err) (st\<lparr>hasErrored := True\<rparr>) else st)
      in try_catch (s_destroy fault st1) (\<lambda>x st2. (Returned, st2)))"

text \<open>
  The \<open>data\<close> listeners of the two pipes, in the order of the calls to \<open>s.pipe\<close>: the chunk
  is written to concat-stream, then to \<open>res\<close>.
\<close>

definition pipe_concat_data :: "string \<Rightarrow> sstate \<Rightarrow> sstate" where
  "pipe_concat_data chunk st = (if concat_piped st then st\<lparr>buffer := buffer st @ chunk\<rparr> else st)"

definition pipe_res_data :: "string \<Rightarrow> sstate \<Rightarrow> sstate" where
  "pipe_res_data chunk st = (if res_piped st then emitted (ResWrite chunk) st else st)"

definition on_data :: "string \<Rightarrow> sstate \<Rightarrow> outcome \<times> sstate" where
  "on_data chunk st = (Returned, pipe_res_data chunk (pipe_concat_data chunk st))"

text \<open>
  \<^verbatim>\<open>concatStream(buffer => { req.cache(JSON.parse(buffer)); })\<close>
  \<open>JSON.parse\<close> is the parameter \<open>parse\<close>; \<open>None\<close> is its SyntaxError. Nothing around the
  call catches it.
\<close>

definition concat_callback :: "(string \<Rightarrow> json option) \<Rightarrow> string \<Rightarrow> sstate \<Rightarrow> outcome \<times> sstate" where
  "concat_callback parse buf st =
     (case parse buf of None \<Rightarrow> (Threw (Fault ''SyntaxError''), st)
                      | Some v \<Rightarrow> (Returned, emitted (ReqCache v) st))"

text \<open>
  The \<open>end\<close> listeners of the two pipes, in the same order: concat-stream is ended, which
  runs its callback on the collected bytes; then \<open>res\<close> is ended. An exception of the first
  listener leaves the second one unrun.
\<close>

definition pipe_concat_end :: "(string \<Rightarrow> json option) \<Rightarrow> sstate \<Rightarrow> outcome \<times> sstate" where
  "pipe_concat_end parse st =
     (if concat_piped st
      then concat_callback parse (buffer st) (emitted (Callback (buffer st)) (st\<lparr>concat_piped := False\<rparr>))
      else (Returned, st))"

definition pipe_res_end :: "sstate \<Rightarrow> outcome \<times> sstate" where
  "pipe_res_end st =
     (if res_piped st then (Returned, emitted ResEnd (st\<lparr>res_piped := False\<rparr>)) else (Returned, st))"

definition on_end :: "(string \<Rightarrow> json option) \<Rightarrow> sstate \<Rightarrow> outcome \<times> sstate" where
  "on_end parse st =
     (case pipe_concat_end parse st of
        (Returned, st1) \<Rightarrow> pipe_res_end st1
      | (Threw x, st1) \<Rightarrow> (Threw x, st1))"

text \<open>
  The handler registers no listener for the \<open>close\<close> of \<open>res\<close>: the only effect of that
  event is the pipe's own, which detaches \<open>res\<close> from \<open>s\<close>.
\<close>

definition on_client_close :: "sstate \<Rightarrow> outcome \<times> sstate" where
  "on_client_close st = (Returned, st\<lparr>res_piped := False\<rparr>)"

text \<open>
  Each call to \<open>s.pipe\<close> also puts an \<open>error\<close> listener of its own on \<open>s\<close>, which
  detaches that pipe: after an \<open>error\<close> event no chunk and no \<open>end\<close> of \<open>s\<close> reaches
  concat-stream or \<open>res\<close>. The listeners of an \<open>error\<close> event run in the order in which
  they were registered: the handler's, then the two pipes'.
\<close>

definition pipe_concat_error :: "sstate \<Rightarrow> sstate" where
  "pipe_concat_error st = st\<lparr>concat_piped := False\<rparr>"

definition pipe_res_error :: "sstate \<Rightarrow> sstate" where
  "pipe_res_error st = st\<lparr>res_piped := False\<rparr>"

definition on_source_error :: "error \<Rightarrow> string option \<Rightarrow> sstate \<Rightarrow> outcome \<times> sstate" where
  "on_source_error err fault st =
     (case on_error err fault st of
        (Returned, st1) \<Rightarrow> (Returned, pipe_res_error (pipe_concat_error st1))
      | (Threw x, st1) \<Rightarrow> (Threw x, st1))"

fun listeners :: "(string \<Rightarrow> json option) \<Rightarrow> event \<Rightarrow> sstate \<Rightarrow> outcome \<times> sstate" where
  "listeners parse (Response statusCode) st = on_response statusCode st"
| "listeners parse (Data chunk) st = on_data chunk st"
| "listeners parse (Error err fault) st = on_source_error err fault st"
| "listeners parse End st = on_end parse st"
| "listeners parse ClientClose st = on_client_close st"

text \<open>
  Delivering one event. An exception that leaves a listener is caught by no one: the file
  installs no handler for it, the process stops, and no later event is delivered.
\<close>

definition deliver :: "(string \<Rightarrow> json option) \<Rightarrow> event \<Rightarrow> sstate \<Rightarrow> sstate" where
  "deliver parse ev st =
     (if uncaught st \<noteq> None then st
      else case listeners parse ev st of
             (Returned, st1) \<Rightarrow> st1
           | (Threw x, st1) \<Rightarrow> st1\<lparr>uncaught := Some x\<rparr>)"

fun run :: "(string \<Rightarrow> json option) \<Rightarrow> sstate \<Rightarrow> event list \<Rightarrow> sstate" where
  "run parse st [] = st"
| "run parse st (ev # evs) = run parse (deliver parse ev st) evs"

definition serve :: "(string \<Rightarrow> json option) \<Rightarrow> source \<Rightarrow> json \<Rightarrow> event list \<Rightarrow> sstate" where
  "serve parse src query evs = run parse (stream_handler src query) evs"

subsection \<open>Reading a trace\<close>

fun next_arg :: "effect \<Rightarrow> error list" where
  "next_arg (Next err) = [err]"
| "next_arg _ = []"

definition signalled :: "effect list \<Rightarrow> error list" where
  "signalled l = concat (map next_arg l)"

fun written :: "effect \<Rightarrow> string" where
  "written (ResWrite chunk) = chunk"
| "written _ = []"

definition res_bytes :: "effect list \<Rightarrow> string" where
  "res_bytes l = concat (map written l)"

fun cached :: "effect \<Rightarrow> json list" where
  "cached (ReqCache v) = [v]"
| "cached _ = []"

definition cache_writes :: "effect list \<Rightarrow> json list" where
  "cache_writes l = concat (map cached l)"

fun handed :: "effect \<Rightarrow> string list" where
  "handed (Callback buf) = [buf]"
| "handed _ = []"

definition callbacks :: "effect list \<Rightarrow> string list" where
  "callbacks l = concat (map handed l)"

fun chunk_of :: "event \<Rightarrow> string" where
  "chunk_of (Data chunk) = chunk"
| "chunk_of _ = []"

definition payload :: "event list \<Rightarrow> string" where
  "payload evs = concat (map chunk_of evs)"

fun destroyed :: "effect \<Rightarrow> bool" where
  "destroyed Destroy = True"
| "destroyed _ = False"

text \<open>The events of a stream that only delivers: its response and its chunks.\<close>

fun body_event :: "event \<Rightarrow> bool" where
  "body_event (Response statusCode) = True"
| "body_event (Data chunk) = True"
| "body_event _ = False"

text \<open>The same, with the remote peer allowed to close the connection in between.\<close>

fun quiet_event :: "event \<Rightarrow> bool" where
  "quiet_event (Response statusCode) = True"
| "quiet_event (Data chunk) = True"
| "quiet_event ClientClose = True"
| "quiet_event _ = False"

text \<open>
  Modelled from the spec: the stream that \<open>req.db\<close> returns is made outside this file, and
  its contract is that it emits a response event before body bytes, and either an error
  event or normal completion. The first half: of the \<open>response\<close> and \<open>data\<close> events of
  the list, the first is a \<open>response\<close>.
\<close>

fun response_first :: "event list \<Rightarrow> bool" where
  "response_first [] = True"
| "response_first (Response statusCode # evs) = True"
| "response_first (Data chunk # evs) = False"
| "response_first (ev # evs) = response_first evs"

text \<open>A stand-in for \<open>JSON.parse\<close> in the examples: it accepts one body.\<close>

definition sample_parse :: "string \<Rightarrow> json option" where
  "sample_parse b = (if b = ''[1,2]'' then Some (JArr [JNum 1, JNum 2]) else None)"

section \<open>The other handlers\<close>

text \<open>
  What these handlers read of the request, and the collaborators they call. An awaited
  call returns a value (\<open>Inr\<close>) or throws (\<open>Inl\<close>). \<open>res.json\<close>, \<open>req.cache\<close> and \<open>next\<close>
  are taken to return.
\<close>

record request =
  query_identifier :: qvalue
  isAuthenticated :: bool
  req_body :: json
  req_user :: json
  config :: json
  req_param :: string

record collaborators =
  db_get :: "string \<Rightarrow> error + json"
  db_post :: "json \<Rightarrow> json \<Rightarrow> error + json"
  resolve :: "qvalue \<Rightarrow> json \<Rightarrow> error + json"

text \<open>\<open>!identifier\<close> holds of \<open>undefined\<close> and of the empty string, of no array or object.\<close>

fun truthy :: "qvalue \<Rightarrow> bool" where
  "truthy QUndefined = False"
| "truthy (QString s) = (s \<noteq> [])"
| "truthy (QArray vs) = True"
| "truthy (QObject kvs) = True"

text \<open>
  \<^verbatim>\<open>async (req, res, next) => {
    try {
      const body = await req.db.get(`review:${req.params.reviewId}`);
      req.cache(body);
      res.json(body);
    } catch (err) { next(err); }
  }\<close>
  and the same for \<open>preprint\<close>, \<open>request\<close>, \<open>user\<close> and \<open>role\<close>.
\<close>

definition get_by_id :: "string \<Rightarrow> collaborators \<Rightarrow> request \<Rightarrow> effect list" where
  "get_by_id kind c req =
     (let key = kind @ '':'' @ req_param req
      in DbGet key #
         (case db_get c key of
            Inr b \<Rightarrow> [ReqCache b, ResJson b]
          | Inl err \<Rightarrow> [Next err]))"

text \<open>\<^verbatim>\<open>(req, res, next) => { next(createError(500, 'Not implemented yet')); }\<close>\<close>

definition get_review :: "collaborators \<Rightarrow> request \<Rightarrow> effect list" where
  "get_review c req = [Next (HttpError 500 ''Not implemented yet'')]"

definition get_request :: "collaborators \<Rightarrow> request \<Rightarrow> effect list" where
  "get_request c req = [Next (HttpError 500 ''Not implemented yet'')]"

definition get_user :: "collaborators \<Rightarrow> request \<Rightarrow> effect list" where
  "get_user c req = [Next (HttpError 500 ''Not implemented yet'')]"

definition get_role :: "collaborators \<Rightarrow> request \<Rightarrow> effect list" where
  "get_role c req = [Next (HttpError 500 ''Not implemented yet'')]"

text \<open>
  \<^verbatim>\<open>if (!req.isAuthenticated()) { return next(createError(401, 'Login required')); }
  let body;
  try { body = await req.db.post(req.body, { user: req.user }); }
  catch (err) { return next(err); }
  res.json(body);\<close>
\<close>

definition post_action :: "collaborators \<Rightarrow> request \<Rightarrow> effect list" where
  "post_action c req =
     (if \<not> isAuthenticated req then [Next (HttpError 401 ''Login required'')]
      else DbPost (req_body req) (req_user req) #
           (case db_post c (req_body req) (req_user req) of
              Inl err \<Rightarrow> [Next err]
            | Inr b \<Rightarrow> [ResJson b]))"

text \<open>
  \<^verbatim>\<open>const { identifier } = req.query;
  if (!identifier) {
    return next(createError(400, 'missing identifier query string parameter'));
  }
  const { config } = req.app.locals;
  try { const data = await resolve(identifier, config); res.json(data); }
  catch (err) { next(err); }\<close>
\<close>

definition get_resolve :: "collaborators \<Rightarrow> request \<Rightarrow> effect list" where
  "get_resolve c req =
     (if \<not> truthy (query_identifier req)
      then [Next (HttpError 400 ''missing identifier query string parameter'')]
      else Resolve (query_identifier req) (config req) #
           (case resolve c (query_identifier req) (config req) of
              Inr data \<Rightarrow> [ResJson data]
            | Inl err \<Rightarrow> [Next err]))"

text \<open>The routes of the router that answer without a stream, and their handlers.\<close>

datatype route =
    GetPreprintById
  | GetReview
  | GetReviewById
  | GetRequest
  | GetRequestById
  | GetUser
  | GetUserById
  | GetRole
  | GetRoleById
  | PostAction
  | GetResolve

fun handle :: "route \<Rightarrow> collaborators \<Rightarrow> request \<Rightarrow> effect list" where
  "handle GetPreprintById = get_by_id ''preprint''"
| "handle GetReview = get_review"
| "handle GetReviewById = get_by_id ''review''"
| "handle GetRequest = get_request"
| "handle GetRequestById = get_by_id ''request''"
| "handle GetUser = get_user"
| "handle GetUserById = get_by_id ''user''"
| "handle GetRole = get_role"
| "handle GetRoleById = get_by_id ''role''"
| "handle PostAction = post_action"
| "handle GetResolve = get_resolve"

fun db_call :: "effect \<Rightarrow> bool" where
  "db_call (DbStream src query) = True"
| "db_call (DbGet key) = True"
| "db_call (DbPost b u) = True"
| "db_call _ = False"

fun resolve_call :: "effect \<Rightarrow> bool" where
  "resolve_call (Resolve i cfg) = True"
| "resolve_call _ = False"

fun sent :: "effect \<Rightarrow> json list" where
  "sent (ResJson b) = [b]"
| "sent _ = []"

definition json_sent :: "effect list \<Rightarrow> json list" where
  "json_sent l = concat (map sent l)"

text \<open>Collaborators and a request for the examples.\<close>

definition sample_collaborators :: collaborators where
  "sample_collaborators =
     \<lparr>db_get = (\<lambda>key. if key = ''review:1'' then Inr (JStr ''r1'') else Inl (HttpError 404 ''not found'')),
      db_post = (\<lambda>b u. if b = JNull then Inl (HttpError 400 ''invalid action'') else Inr (JObj [(''ok'', JBool True)])),
      resolve = (\<lambda>i cfg. if i = QString ''10.1000/xyz'' then Inr (JStr ''metadata'') else Inl (Fault ''unresolved''))\<rparr>"

definition sample_request :: request where
  "sample_request =
     \<lparr>query_identifier = QString ''10.1000/xyz'', isAuthenticated = True, req_body = JStr ''action'',
      req_user = JStr ''user:1'', config = JNull, req_param = ''1''\<rparr>"

section \<open>Invariants of the streaming handlers\<close>

text \<open>
  \<open>next\<close> has been called at most once, and not at all while \<open>hasErrored\<close> is false.
\<close>

definition once :: "sstate \<Rightarrow> bool" where
  "once st = (length (signalled (trace st)) \<le> 1 \<and> (hasErrored st \<or> signalled (trace st) = []))"

text \<open>No later \<open>error\<close> event reaches \<open>next\<close>: the flag is set, or the process has stopped.\<close>

definition muted :: "sstate \<Rightarrow> bool" where
  "muted st = (uncaught st \<noteq> None \<or> hasErrored st)"

text \<open>Nothing reaches the callback of concat-stream any more: its pipe is detached, or the
  process has stopped.\<close>

definition cut :: "sstate \<Rightarrow> bool" where
  "cut st = (uncaught st \<noteq> None \<or> \<not> concat_piped st)"

text \<open>An effect that is neither the status nor a chunk of the body.\<close>

fun off_wire :: "effect \<Rightarrow> bool" where
  "off_wire (Status n) = False"
| "off_wire (ResWrite c) = False"
| "off_wire _ = True"

text \<open>Of the status calls and body writes of a trace, the first is a status call.\<close>

fun status_first :: "effect list \<Rightarrow> bool" where
  "status_first [] = True"
| "status_first (Status n # l) = True"
| "status_first (ResWrite c # l) = False"
| "status_first (x # l) = status_first l"

section \<open>Basic facts about delivery\<close>

lemmas listener_defs = get_preprint_def get_action_def on_response_def on_data_def on_error_def on_end_def on_client_close_def
  on_source_error_def pipe_concat_error_def pipe_res_error_def
  pipe_concat_data_def pipe_res_data_def pipe_concat_end_def pipe_res_end_def concat_callback_def
  s_destroy_def try_catch_def emitted_def

lemmas reading_defs = signalled_def res_bytes_def cache_writes_def callbacks_def payload_def

lemma stream_handler_eq:
  "stream_handler src query =
     \<lparr>hasErrored = False, buffer = [], concat_piped = True, res_piped = True, uncaught = None,
      trace = [SetHeader ''content-type'' ''application/json'', DbStream src query]\<rparr>"
  by (cases src) (simp_all add: get_preprint_def get_action_def)

lemma run_append: "run parse st (xs @ ys) = run parse (run parse st xs) ys"
  by (induction xs arbitrary: st) simp_all

lemma run_snoc: "run parse st (evs @ [ev]) = deliver parse ev (run parse st evs)"
  by (simp add: run_append)

lemma deliver_crashed: "uncaught st \<noteq> None \<Longrightarrow> deliver parse ev st = st"
  by (simp add: deliver_def)

lemma run_crashed: "uncaught st \<noteq> None \<Longrightarrow> run parse st evs = st"
  by (induction evs) (simp_all add: deliver_crashed)

lemma init_facts:
  "uncaught (stream_handler src query) = None" "concat_piped (stream_handler src query)"
  "res_piped (stream_handler src query)" "buffer (stream_handler src query) = []"
  "signalled (trace (stream_handler src query)) = []"
  "cache_writes (trace (stream_handler src query)) = []"
  "callbacks (trace (stream_handler src query)) = []"
  "res_bytes (trace (stream_handler src query)) = []"
  "\<not> list_ex destroyed (trace (stream_handler src query))"
  "\<not> hasErrored (stream_handler src query)"
  by (simp_all add: stream_handler_eq reading_defs)

lemma trace_grows_deliver: "\<exists>l. trace (deliver parse ev st) = trace st @ l"
  by (cases ev) (simp_all add: deliver_def listener_defs Let_def split: option.splits)

lemma trace_grows_run: "\<exists>l. trace (run parse st evs) = trace st @ l"
proof (induction evs arbitrary: st)
  case Nil
  then show ?case by simp
next
  case (Cons ev evs)
  obtain l1 where "trace (deliver parse ev st) = trace st @ l1"
    using trace_grows_deliver by blast
  moreover obtain l2 where "trace (run parse (deliver parse ev st) evs) = trace (deliver parse ev st) @ l2"
    using Cons.IH by blast
  ultimately show ?case by simp
qed

section \<open>An upstream error is signalled once\<close>

lemma once_deliver: "once st \<Longrightarrow> once (deliver parse ev st)"
  by (cases ev) (auto simp: once_def deliver_def signalled_def listener_defs Let_def split: option.splits)

lemma once_run: "once st \<Longrightarrow> once (run parse st evs)"
  by (induction evs arbitrary: st) (simp_all add: once_deliver)

lemma once_init: "once (stream_handler src query)"
  by (simp add: once_def stream_handler_eq signalled_def)

lemma muted_deliver: "muted st \<Longrightarrow> muted (deliver parse ev st)"
  by (cases ev) (auto simp: muted_def deliver_def listener_defs Let_def split: option.splits)

lemma muted_run: "muted st \<Longrightarrow> muted (run parse st evs)"
  by (induction evs arbitrary: st) (simp_all add: muted_deliver)

lemma muted_after_error: "muted (deliver parse (Error e d) st)"
  by (auto simp: muted_def deliver_def listener_defs Let_def split: option.splits)

lemma muted_silent:
  "muted st \<Longrightarrow> signalled (trace (deliver parse (Error e d) st)) = signalled (trace st)"
  by (auto simp: muted_def deliver_def signalled_def listener_defs Let_def split: option.splits)

text \<open>
  Claim C1. On GET /preprint and GET /action, whatever the upstream stream and the client
  do, \<open>next\<close> is called at most once; and an \<open>error\<close> event that comes after another
  \<open>error\<close> event, with any events in between, adds no call to \<open>next\<close>.
\<close>

theorem error_signalled_at_most_once:
  "length (signalled (trace (serve parse src query evs))) \<le> 1 \<and>
   signalled (trace (serve parse src query (evs @ Error e d # evs' @ [Error e' d']))) =
   signalled (trace (serve parse src query (evs @ Error e d # evs')))"
proof
  have "once (serve parse src query evs)"
    unfolding serve_def by (rule once_run [OF once_init])
  then show "length (signalled (trace (serve parse src query evs))) \<le> 1"
    by (simp add: once_def)
next
  let ?st = "run parse (stream_handler src query) (evs @ Error e d # evs')"
  have "?st = run parse (deliver parse (Error e d) (run parse (stream_handler src query) evs)) evs'"
    by (simp add: run_append)
  then have "muted ?st"
    by (simp add: muted_run [OF muted_after_error])
  then have "signalled (trace (deliver parse (Error e' d') ?st)) = signalled (trace ?st)"
    by (rule muted_silent)
  moreover have "serve parse src query (evs @ Error e d # evs' @ [Error e' d']) =
      deliver parse (Error e' d') ?st"
    using run_append [of parse "stream_handler src query" "evs @ Error e d # evs'" "[Error e' d']"]
    by (simp add: serve_def)
  ultimately show "signalled (trace (serve parse src query (evs @ Error e d # evs' @ [Error e' d']))) =
      signalled (trace (serve parse src query (evs @ Error e d # evs')))"
    by (simp add: serve_def)
qed

text \<open>Two \<open>error\<close> events in a row on GET /preprint: only the first reaches \<open>next\<close>.\<close>

theorem error_signalled_at_most_once_witness:
  "length (signalled (trace (serve sample_parse StreamPreprints JNull
     [Data ''[1,'', Error (Fault ''reset'') None, Error (Fault ''closed'') (Some ''gone'')]))) \<le> 1 \<and>
   signalled (trace (serve sample_parse StreamPreprints JNull
     [Data ''[1,'', Error (Fault ''reset'') None, Error (Fault ''closed'') (Some ''gone'')])) =
   [Fault ''reset'']"
  using error_signalled_at_most_once [of sample_parse StreamPreprints JNull "[Data ''[1,'']"
      "Fault ''reset''" None "[]" "Fault ''closed''" "Some ''gone''"]
  by (simp add: serve_def stream_handler_eq deliver_def listener_defs reading_defs)

section \<open>Both sinks receive the same bytes\<close>

lemma quiet_deliver:
  assumes "quiet_event ev" and "uncaught st = None" and "concat_piped st"
  shows "uncaught (deliver parse ev st) = None \<and> concat_piped (deliver parse ev st) \<and>
         buffer (deliver parse ev st) = buffer st @ chunk_of ev \<and>
         signalled (trace (deliver parse ev st)) = signalled (trace st) \<and>
         cache_writes (trace (deliver parse ev st)) = cache_writes (trace st) \<and>
         callbacks (trace (deliver parse ev st)) = callbacks (trace st) \<and>
         list_ex destroyed (trace (deliver parse ev st)) = list_ex destroyed (trace st)"
  using assms by (cases ev) (simp_all add: deliver_def listener_defs reading_defs)

lemma quiet_run:
  assumes "list_all quiet_event evs" and "uncaught st = None" and "concat_piped st"
  shows "uncaught (run parse st evs) = None \<and> concat_piped (run parse st evs) \<and>
         buffer (run parse st evs) = buffer st @ payload evs \<and>
         signalled (trace (run parse st evs)) = signalled (trace st) \<and>
         cache_writes (trace (run parse st evs)) = cache_writes (trace st) \<and>
         callbacks (trace (run parse st evs)) = callbacks (trace st) \<and>
         list_ex destroyed (trace (run parse st evs)) = list_ex destroyed (trace st)"
  using assms
proof (induction evs arbitrary: st)
  case Nil
  then show ?case by (simp add: payload_def)
next
  case (Cons ev evs)
  from Cons.prems have q: "quiet_event ev" and qs: "list_all quiet_event evs" by simp_all
  note d = quiet_deliver [OF q Cons.prems(2) Cons.prems(3), of parse]
  from d have u: "uncaught (deliver parse ev st) = None" and c: "concat_piped (deliver parse ev st)"
    by simp_all
  note r = Cons.IH [OF qs u c]
  have p: "payload (ev # evs) = chunk_of ev @ payload evs" by (simp add: payload_def)
  show ?case using d r by (simp add: p)
qed

lemma body_quiet: "body_event ev \<Longrightarrow> quiet_event ev"
  by (cases ev) simp_all

lemma body_all_quiet: "list_all body_event evs \<Longrightarrow> list_all quiet_event evs"
  by (induction evs) (simp_all add: body_quiet)

lemma body_deliver:
  assumes "body_event ev" and "uncaught st = None" and "res_piped st"
  shows "res_piped (deliver parse ev st) \<and>
         res_bytes (trace (deliver parse ev st)) = res_bytes (trace st) @ chunk_of ev"
  using assms by (cases ev) (simp_all add: deliver_def listener_defs reading_defs)

lemma body_run:
  assumes "list_all body_event evs" and "uncaught st = None" and "concat_piped st" and "res_piped st"
  shows "res_piped (run parse st evs) \<and>
         res_bytes (trace (run parse st evs)) = res_bytes (trace st) @ payload evs"
  using assms
proof (induction evs arbitrary: st)
  case Nil
  then show ?case by (simp add: payload_def)
next
  case (Cons ev evs)
  from Cons.prems have b: "body_event ev" and bs: "list_all body_event evs" by simp_all
  note q = quiet_deliver [OF body_quiet [OF b] Cons.prems(2) Cons.prems(3), of parse]
  note d = body_deliver [OF b Cons.prems(2) Cons.prems(4), of parse]
  from q d have "uncaught (deliver parse ev st) = None" and "concat_piped (deliver parse ev st)"
    and "res_piped (deliver parse ev st)" by simp_all
  note r = Cons.IH [OF bs this]
  have p: "payload (ev # evs) = chunk_of ev @ payload evs" by (simp add: payload_def)
  show ?case using d r by (simp add: p)
qed

lemma end_deliver:
  assumes "uncaught st = None" and "concat_piped st"
  shows "callbacks (trace (deliver parse End st)) = callbacks (trace st) @ [buffer st] \<and>
         res_bytes (trace (deliver parse End st)) = res_bytes (trace st) \<and>
         signalled (trace (deliver parse End st)) = signalled (trace st) \<and>
         list_ex destroyed (trace (deliver parse End st)) = list_ex destroyed (trace st) \<and>
         buffer (deliver parse End st) = buffer st \<and>
         (case parse (buffer st) of
            None \<Rightarrow> uncaught (deliver parse End st) = Some (Fault ''SyntaxError'') \<and>
                    cache_writes (trace (deliver parse End st)) = cache_writes (trace st)
          | Some v \<Rightarrow> uncaught (deliver parse End st) = None \<and>
                    cache_writes (trace (deliver parse End st)) = cache_writes (trace st) @ [v])"
  using assms by (simp add: deliver_def listener_defs reading_defs split: option.splits)

text \<open>
  Claim C2. On GET /preprint and GET /action, when the upstream stream delivers its response
  and its chunks and then ends, with no error and the client still connected, the bytes
  handed to the callback of concat-stream are the bytes written to the response, chunk
  after chunk in the order of arrival; the callback runs once.
\<close>

theorem cache_bytes_equal_response_bytes:
  assumes "list_all body_event pre"
  shows "callbacks (trace (serve parse src query (pre @ [End]))) = [payload pre] \<and>
         res_bytes (trace (serve parse src query (pre @ [End]))) = payload pre"
proof -
  let ?st = "run parse (stream_handler src query) pre"
  note q = quiet_run [OF body_all_quiet [OF assms] init_facts(1) init_facts(2), of parse src query]
  note b = body_run [OF assms init_facts(1) init_facts(2) init_facts(3), of parse src query]
  from q have u: "uncaught ?st = None" and c: "concat_piped ?st" by simp_all
  note e = end_deliver [OF u c, of parse]
  have s: "serve parse src query (pre @ [End]) = deliver parse End ?st"
    by (simp add: serve_def run_snoc)
  show ?thesis using q b e by (simp add: s init_facts)
qed

text \<open>A body that arrives in two chunks on GET /action.\<close>

theorem cache_bytes_equal_response_bytes_witness:
  "list_all body_event [Response 200, Data ''[1,'', Data ''2]''] \<and>
   callbacks (trace (serve sample_parse StreamActions JNull
     [Response 200, Data ''[1,'', Data ''2]'', End])) = [''[1,2]''] \<and>
   res_bytes (trace (serve sample_parse StreamActions JNull
     [Response 200, Data ''[1,'', Data ''2]'', End])) = ''[1,2]''"
  using cache_bytes_equal_response_bytes [of "[Response 200, Data ''[1,'', Data ''2]'']"
      sample_parse StreamActions JNull]
  by (simp add: payload_def)

section \<open>A failing teardown is swallowed\<close>

lemma on_error_returns: "fst (on_error err fault st) = Returned"
  by (simp add: listener_defs Let_def split: option.splits)

lemma on_error_fault_irrelevant: "snd (on_error err fault st) = snd (on_error err None st)"
  by (simp add: listener_defs Let_def split: option.splits)

lemma deliver_error:
  "uncaught st = None \<Longrightarrow>
   deliver parse (Error err fault) st =
     pipe_res_error (pipe_concat_error (snd (on_error err fault st)))"
  by (simp add: deliver_def listener_defs Let_def split: option.splits)

text \<open>
  Claim C3. On GET /preprint and GET /action, the \<open>error\<close> listener calls \<open>s.destroy()\<close>
  after it has signalled the error, and an exception thrown by that call is swallowed: the
  listener leaves no uncaught exception behind, the handler ends in the state it would be
  in had \<open>s.destroy()\<close> returned, and the error passed to \<open>next\<close> is the upstream's own.
\<close>

theorem teardown_fault_swallowed:
  "uncaught (serve parse src query (evs @ [Error err fault])) = uncaught (serve parse src query evs) \<and>
   serve parse src query (evs @ [Error err fault]) = serve parse src query (evs @ [Error err None]) \<and>
   (uncaught (serve parse src query evs) = None \<longrightarrow>
      last (trace (serve parse src query (evs @ [Error err fault]))) = Destroy \<and>
      signalled (trace (serve parse src query (evs @ [Error err fault]))) =
        (if hasErrored (serve parse src query evs) then signalled (trace (serve parse src query evs))
         else signalled (trace (serve parse src query evs)) @ [err]))"
proof -
  let ?st = "serve parse src query evs"
  have s: "\<And>f. serve parse src query (evs @ [Error err f]) = deliver parse (Error err f) ?st"
    by (simp add: serve_def run_snoc)
  show ?thesis
  proof (cases "uncaught ?st = None")
    case True
    have "uncaught (snd (on_error err fault ?st)) = None"
      using True by (simp add: listener_defs Let_def split: option.splits)
    moreover have "last (trace (snd (on_error err fault ?st))) = Destroy"
      by (simp add: listener_defs Let_def split: option.splits)
    moreover have "signalled (trace (snd (on_error err fault ?st))) =
        (if hasErrored ?st then signalled (trace ?st) else signalled (trace ?st) @ [err])"
      by (simp add: listener_defs reading_defs Let_def split: option.splits)
    ultimately show ?thesis
      using True on_error_fault_irrelevant [of err fault ?st]
      by (simp add: s deliver_error pipe_concat_error_def pipe_res_error_def)
  next
    case False
    then show ?thesis by (auto simp: s deliver_crashed)
  qed
qed

text \<open>The first error of a stream on GET /preprint, with a teardown that throws.\<close>

theorem teardown_fault_swallowed_witness:
  "uncaught (serve sample_parse StreamPreprints JNull [Response 200, Data ''[1,'']) = None \<and>
   uncaught (serve sample_parse StreamPreprints JNull
     [Response 200, Data ''[1,'', Error (Fault ''reset'') (Some ''gone'')]) = None \<and>
   last (trace (serve sample_parse StreamPreprints JNull
     [Response 200, Data ''[1,'', Error (Fault ''reset'') (Some ''gone'')])) = Destroy \<and>
   signalled (trace (serve sample_parse StreamPreprints JNull
     [Response 200, Data ''[1,'', Error (Fault ''reset'') (Some ''gone'')])) = [Fault ''reset'']"
  using teardown_fault_swallowed [of sample_parse StreamPreprints JNull
      "[Response 200, Data ''[1,'']" "Fault ''reset''" "Some ''gone''"]
  by (simp add: serve_def stream_handler_eq deliver_def listener_defs reading_defs)

section \<open>No cache write from a stream that failed\<close>

lemma no_end_deliver:
  "ev \<noteq> End \<Longrightarrow>
   callbacks (trace (deliver parse ev st)) = callbacks (trace st) \<and>
   cache_writes (trace (deliver parse ev st)) = cache_writes (trace st)"
  by (cases ev) (simp_all add: deliver_def listener_defs reading_defs Let_def split: option.splits)

lemma no_end_run:
  "End \<notin> set evs \<Longrightarrow>
   callbacks (trace (run parse st evs)) = callbacks (trace st) \<and>
   cache_writes (trace (run parse st evs)) = cache_writes (trace st)"
proof (induction evs arbitrary: st)
  case Nil
  then show ?case by simp
next
  case (Cons ev evs)
  then have "ev \<noteq> End" and "End \<notin> set evs" by auto
  then show ?case using Cons.IH [of "deliver parse ev st"] no_end_deliver [of ev parse st] by simp
qed

lemma cut_deliver:
  "cut st \<Longrightarrow>
   cut (deliver parse ev st) \<and>
   callbacks (trace (deliver parse ev st)) = callbacks (trace st) \<and>
   cache_writes (trace (deliver parse ev st)) = cache_writes (trace st)"
  by (cases ev) (auto simp: cut_def deliver_def listener_defs reading_defs Let_def split: option.splits)

lemma cut_run:
  "cut st \<Longrightarrow>
   callbacks (trace (run parse st evs)) = callbacks (trace st) \<and>
   cache_writes (trace (run parse st evs)) = cache_writes (trace st)"
proof (induction evs arbitrary: st)
  case Nil
  then show ?case by simp
next
  case (Cons ev evs)
  then show ?case using cut_deliver [of st parse ev] by simp
qed

lemma cut_after_error: "cut (deliver parse (Error err fault) st)"
  by (auto simp: cut_def deliver_def listener_defs Let_def split: option.splits)

text \<open>
  Claim C5. On GET /preprint and GET /action, when the upstream stream emits an \<open>error\<close>
  event before it has ended, the callback of concat-stream is never run and \<open>req.cache\<close>
  is never called for that request, whatever the stream and the client do after the
  error, an \<open>end\<close> event included.
\<close>

theorem no_cache_write_on_failed_stream:
  assumes "End \<notin> set pre"
  shows "callbacks (trace (serve parse src query (pre @ Error err fault # post))) = [] \<and>
         cache_writes (trace (serve parse src query (pre @ Error err fault # post))) = []"
proof -
  let ?st = "run parse (stream_handler src query) pre"
  let ?st1 = "deliver parse (Error err fault) ?st"
  have r: "serve parse src query (pre @ Error err fault # post) = run parse ?st1 post"
    by (simp add: serve_def run_append)
  have a: "callbacks (trace ?st) = [] \<and> cache_writes (trace ?st) = []"
    using no_end_run [OF assms, of parse "stream_handler src query"] by (simp add: init_facts)
  have b: "callbacks (trace ?st1) = callbacks (trace ?st) \<and>
           cache_writes (trace ?st1) = cache_writes (trace ?st)"
    by (rule no_end_deliver) simp
  have c: "callbacks (trace (run parse ?st1 post)) = callbacks (trace ?st1) \<and>
           cache_writes (trace (run parse ?st1 post)) = cache_writes (trace ?st1)"
    by (rule cut_run [OF cut_after_error])
  show ?thesis using a b c by (simp add: r)
qed

text \<open>
  On GET /action, a complete body, then an error, then the end of the stream all the
  same: the cache is not written.
\<close>

theorem no_cache_write_on_failed_stream_witness:
  "End \<notin> set [Response 200, Data ''[1,2]''] \<and>
   callbacks (trace (serve sample_parse StreamActions JNull
     [Response 200, Data ''[1,2]'', Error (Fault ''reset'') None, End])) = [] \<and>
   cache_writes (trace (serve sample_parse StreamActions JNull
     [Response 200, Data ''[1,2]'', Error (Fault ''reset'') None, End])) = []"
  using no_cache_write_on_failed_stream [of "[Response 200, Data ''[1,2]'']" sample_parse
      StreamActions JNull "Fault ''reset''" None "[End]"]
  by simp

section \<open>A body that does not parse\<close>

text \<open>
  Claim C6 says that a body which fails to parse only suppresses the cache write, is logged
  as a soft failure, and leaves the completed response alone. The callback has no
  \<^verbatim>\<open>try\<close> around \<open>JSON.parse\<close> and the file logs nothing. What the code does: when the
  stream has delivered its response and its chunks and ended, and the collected bytes do
  not parse, then \<open>req.cache\<close> is not called, \<open>next\<close> is not called, every byte of the
  body has been written to the response, and the SyntaxError leaves the callback uncaught.
\<close>

theorem parse_failure_uncaught:
  assumes "list_all body_event pre" and "parse (payload pre) = None"
  shows "cache_writes (trace (serve parse src query (pre @ [End]))) = [] \<and>
         signalled (trace (serve parse src query (pre @ [End]))) = [] \<and>
         res_bytes (trace (serve parse src query (pre @ [End]))) = payload pre \<and>
         uncaught (serve parse src query (pre @ [End])) = Some (Fault ''SyntaxError'')"
proof -
  let ?st = "run parse (stream_handler src query) pre"
  note q = quiet_run [OF body_all_quiet [OF assms(1)] init_facts(1) init_facts(2), of parse src query]
  note b = body_run [OF assms(1) init_facts(1) init_facts(2) init_facts(3), of parse src query]
  from q have u: "uncaught ?st = None" and c: "concat_piped ?st" by simp_all
  from q have buf: "buffer ?st = payload pre" by (simp add: init_facts)
  note e = end_deliver [OF u c, of parse]
  have s: "serve parse src query (pre @ [End]) = deliver parse End ?st"
    by (simp add: serve_def run_snoc)
  show ?thesis using q b e assms(2) by (simp add: s buf init_facts)
qed

text \<open>A body cut short on GET /preprint.\<close>

theorem parse_failure_uncaught_witness:
  "list_all body_event [Response 200, Data ''[1,''] \<and>
   sample_parse (payload [Response 200, Data ''[1,'']) = None \<and>
   cache_writes (trace (serve sample_parse StreamPreprints JNull [Response 200, Data ''[1,'', End])) = [] \<and>
   signalled (trace (serve sample_parse StreamPreprints JNull [Response 200, Data ''[1,'', End])) = [] \<and>
   res_bytes (trace (serve sample_parse StreamPreprints JNull [Response 200, Data ''[1,'', End])) = ''[1,'' \<and>
   uncaught (serve sample_parse StreamPreprints JNull [Response 200, Data ''[1,'', End]) =
     Some (Fault ''SyntaxError'')"
  using parse_failure_uncaught [of "[Response 200, Data ''[1,'']" sample_parse StreamPreprints JNull]
  by (simp add: payload_def sample_parse_def)

text \<open>
  The claim as stated fails on GET /action for the body \<open>[1,\<close>: the suppressed cache write
  is not the only effect, the exception is caught by no one.
\<close>

theorem parse_failure_soft_counterexample:
  "sample_parse ''[1,'' = None \<and>
   uncaught (serve sample_parse StreamActions JNull [Response 200, Data ''[1,'', End]) =
     Some (Fault ''SyntaxError'')"
  by (simp add: serve_def stream_handler_eq deliver_def listener_defs sample_parse_def)

section \<open>The client goes away\<close>

text \<open>
  Claim C7 says that when the remote peer closes the response before the upstream stream
  completes, the upstream stream is terminated and the collected bytes are discarded. The
  handler has no listener for that event. What the code does: when the client closes the
  connection while the stream delivers, and the stream then ends without an error with a
  body that parses, \<open>s.destroy()\<close> is never called, \<open>next\<close> is never called, the callback
  of concat-stream runs on the complete body and \<open>req.cache\<close> is called with its value.
\<close>

theorem client_close_not_handled:
  assumes "list_all quiet_event pre" and "ClientClose \<in> set pre" and "parse (payload pre) = Some v"
  shows "callbacks (trace (serve parse src query (pre @ [End]))) = [payload pre] \<and>
         cache_writes (trace (serve parse src query (pre @ [End]))) = [v] \<and>
         \<not> list_ex destroyed (trace (serve parse src query (pre @ [End]))) \<and>
         signalled (trace (serve parse src query (pre @ [End]))) = []"
proof -
  let ?st = "run parse (stream_handler src query) pre"
  note q = quiet_run [OF assms(1) init_facts(1) init_facts(2), of parse src query]
  from q have u: "uncaught ?st = None" and c: "concat_piped ?st" by simp_all
  from q have buf: "buffer ?st = payload pre" by (simp add: init_facts)
  note e = end_deliver [OF u c, of parse]
  have s: "serve parse src query (pre @ [End]) = deliver parse End ?st"
    by (simp add: serve_def run_snoc)
  show ?thesis using q e assms(3) by (simp add: s buf init_facts)
qed

text \<open>The client leaves after the first of two chunks, on GET /preprint.\<close>

theorem client_close_not_handled_witness:
  "list_all quiet_event [Response 200, Data ''[1,'', ClientClose, Data ''2]''] \<and>
   ClientClose \<in> set [Response 200, Data ''[1,'', ClientClose, Data ''2]''] \<and>
   sample_parse (payload [Response 200, Data ''[1,'', ClientClose, Data ''2]'']) =
     Some (JArr [JNum 1, JNum 2]) \<and>
   callbacks (trace (serve sample_parse StreamPreprints JNull
     [Response 200, Data ''[1,'', ClientClose, Data ''2]'', End])) = [''[1,2]''] \<and>
   cache_writes (trace (serve sample_parse StreamPreprints JNull
     [Response 200, Data ''[1,'', ClientClose, Data ''2]'', End])) = [JArr [JNum 1, JNum 2]] \<and>
   \<not> list_ex destroyed (trace (serve sample_parse StreamPreprints JNull
     [Response 200, Data ''[1,'', ClientClose, Data ''2]'', End])) \<and>
   signalled (trace (serve sample_parse StreamPreprints JNull
     [Response 200, Data ''[1,'', ClientClose, Data ''2]'', End])) = []"
  using client_close_not_handled [of "[Response 200, Data ''[1,'', ClientClose, Data ''2]'']"
      sample_parse "JArr [JNum 1, JNum 2]" StreamPreprints JNull]
  by (simp add: payload_def sample_parse_def)

text \<open>
  The claim as stated fails on GET /action: the client has received \<open>[1,\<close> only, the
  stream was not destroyed, and the cache is written.
\<close>

theorem client_close_cache_miss_counterexample:
  "res_bytes (trace (serve sample_parse StreamActions JNull
     [Response 200, Data ''[1,'', ClientClose, Data ''2]'', End])) = ''[1,'' \<and>
   \<not> list_ex destroyed (trace (serve sample_parse StreamActions JNull
     [Response 200, Data ''[1,'', ClientClose, Data ''2]'', End])) \<and>
   cache_writes (trace (serve sample_parse StreamActions JNull
     [Response 200, Data ''[1,'', ClientClose, Data ''2]'', End])) = [JArr [JNum 1, JNum 2]]"
  by (simp add: serve_def stream_handler_eq deliver_def listener_defs reading_defs sample_parse_def)

section \<open>Status and content type come before the body\<close>

lemma status_first_split:
  "status_first l \<Longrightarrow> l = pre @ ResWrite c # post \<Longrightarrow> \<exists>n. Status n \<in> set pre"
proof (induction l arbitrary: pre)
  case Nil
  then show ?case by simp
next
  case (Cons x l)
  note sf = Cons.prems(1) and eq = Cons.prems(2) and ih = Cons.IH
  show ?case
  proof (cases pre)
    case Nil
    with eq have "x = ResWrite c" by simp
    with sf show ?thesis by simp
  next
    case (Cons y pre')
    with eq have l: "l = pre' @ ResWrite c # post" and y: "y = x" by simp_all
    show ?thesis
    proof (cases "\<exists>n. x = Status n")
      case True
      then show ?thesis using Cons y by auto
    next
      case False
      then have "status_first l" using sf by (cases x) auto
      then have "\<exists>n. Status n \<in> set pre'" using l by (rule ih)
      then show ?thesis using Cons by auto
    qed
  qed
qed

lemma status_first_append:
  "status_first l \<Longrightarrow> Status n \<in> set l \<Longrightarrow> status_first (l @ l')"
  by (induction l rule: status_first.induct) auto

lemma off_wire_status_first: "list_all off_wire l \<Longrightarrow> status_first l"
  by (induction l rule: status_first.induct) auto

lemma off_wire_then_status: "list_all off_wire l \<Longrightarrow> status_first (l @ [Status n])"
  by (induction l rule: status_first.induct) auto

lemma status_kept:
  assumes "status_first (trace st)" and "Status n \<in> set (trace st)"
  shows "status_first (trace (run parse st evs))"
proof -
  obtain l where "trace (run parse st evs) = trace st @ l"
    using trace_grows_run by blast
  then show ?thesis using status_first_append [OF assms] by simp
qed

lemma deliver_response: "uncaught st = None \<Longrightarrow> trace (deliver parse (Response n) st) = trace st @ [Status n]"
  by (simp add: deliver_def listener_defs)

lemma deliver_off_wire:
  "list_all off_wire (trace st) \<Longrightarrow> ev = End \<or> ev = ClientClose \<or> ev = Error err fault \<Longrightarrow>
   list_all off_wire (trace (deliver parse ev st))"
  by (auto simp: deliver_def listener_defs Let_def split: option.splits)

lemma response_first_run:
  "list_all off_wire (trace st) \<Longrightarrow> response_first evs \<Longrightarrow> status_first (trace (run parse st evs))"
proof (induction evs arbitrary: st)
  case Nil
  then show ?case by (simp add: off_wire_status_first)
next
  case (Cons ev evs)
  show ?case
  proof (cases "uncaught st = None")
    case False
    then have "run parse st (ev # evs) = st" by (rule run_crashed)
    then show ?thesis using Cons.prems(1) by (simp add: off_wire_status_first)
  next
    case True
    show ?thesis
    proof (cases ev)
      case (Response n)
      have "status_first (trace (deliver parse ev st))" "Status n \<in> set (trace (deliver parse ev st))"
        using Cons.prems(1) True Response by (simp_all add: deliver_response off_wire_then_status)
      then show ?thesis using status_kept by simp
    next
      case (Data c)
      then show ?thesis using Cons.prems(2) by simp
    next
      case (Error err fault)
      then show ?thesis
        using Cons.IH [OF deliver_off_wire [OF Cons.prems(1), of ev err fault parse]] Cons.prems(2) by simp
    next
      case End
      then show ?thesis
        using Cons.IH [OF deliver_off_wire [OF Cons.prems(1), of ev _ _ parse]] Cons.prems(2) by simp
    next
      case ClientClose
      then show ?thesis
        using Cons.IH [OF deliver_off_wire [OF Cons.prems(1), of ev _ _ parse]] Cons.prems(2) by simp
    qed
  qed
qed

lemma status_origin_deliver:
  "Status n \<in> set (trace (deliver parse ev st)) \<Longrightarrow> Status n \<in> set (trace st) \<or> ev = Response n"
  by (cases ev) (auto simp: deliver_def listener_defs Let_def split: option.splits if_splits)

lemma status_origin_run:
  "Status n \<in> set (trace (run parse st evs)) \<Longrightarrow> Status n \<in> set (trace st) \<or> Response n \<in> set evs"
proof (induction evs arbitrary: st)
  case Nil
  then show ?case by simp
next
  case (Cons ev evs)
  then have "Status n \<in> set (trace (deliver parse ev st)) \<or> Response n \<in> set evs" by simp
  then show ?case using status_origin_deliver [of n parse ev st] by auto
qed

text \<open>
  Claim C4. On GET /preprint and GET /action, before any chunk of the body is written to
  the response, the content type has been set on it; and when the upstream stream emits
  its \<open>response\<close> event before its first chunk, the status has been set on it too, to a
  status code the upstream stream gave in a \<open>response\<close> event.
\<close>

theorem head_before_body:
  assumes "trace (serve parse src query evs) = pre @ ResWrite chunk # post"
  shows "SetHeader ''content-type'' ''application/json'' \<in> set pre \<and>
         (response_first evs \<longrightarrow> (\<exists>code. Response code \<in> set evs \<and> Status code \<in> set pre))"
proof
  obtain l where "trace (serve parse src query evs) = trace (stream_handler src query) @ l"
    unfolding serve_def using trace_grows_run by blast
  then have "pre @ ResWrite chunk # post = SetHeader ''content-type'' ''application/json'' # DbStream src query # l"
    using assms by (simp add: stream_handler_eq)
  then show "SetHeader ''content-type'' ''application/json'' \<in> set pre"
    by (cases pre) simp_all
next
  show "response_first evs \<longrightarrow> (\<exists>code. Response code \<in> set evs \<and> Status code \<in> set pre)"
  proof
    assume rf: "response_first evs"
    have "list_all off_wire (trace (stream_handler src query))"
      by (simp add: stream_handler_eq)
    then have "status_first (trace (serve parse src query evs))"
      unfolding serve_def using rf by (rule response_first_run)
    then obtain code where c: "Status code \<in> set pre"
      using status_first_split [OF _ assms] by blast
    then have "Status code \<in> set (trace (serve parse src query evs))"
      using assms by simp
    then have "Response code \<in> set evs"
      using status_origin_run [of code parse "stream_handler src query" evs]
      by (auto simp: serve_def stream_handler_eq)
    then show "\<exists>code. Response code \<in> set evs \<and> Status code \<in> set pre"
      using c by blast
  qed
qed

text \<open>The first chunk of a body on GET /action, after the header and the status 200.\<close>

theorem head_before_body_witness:
  "trace (serve sample_parse StreamActions JNull [Response 200, Data ''[1,'', Data ''2]'', End]) =
     [SetHeader ''content-type'' ''application/json'', DbStream StreamActions JNull, Status 200] @
     ResWrite ''[1,'' #
     [ResWrite ''2]'', Callback ''[1,2]'', ReqCache (JArr [JNum 1, JNum 2]), ResEnd] \<and>
   response_first [Response 200, Data ''[1,'', Data ''2]'', End] \<and>
   SetHeader ''content-type'' ''application/json'' \<in>
     set [SetHeader ''content-type'' ''application/json'', DbStream StreamActions JNull, Status 200] \<and>
   (\<exists>code. Response code \<in> set [Response 200, Data ''[1,'', Data ''2]'', End] \<and>
      Status code \<in> set [SetHeader ''content-type'' ''application/json'', DbStream StreamActions JNull, Status 200])"
  using head_before_body [of sample_parse StreamActions JNull
      "[Response 200, Data ''[1,'', Data ''2]'', End]"
      "[SetHeader ''content-type'' ''application/json'', DbStream StreamActions JNull, Status 200]"
      "''[1,''"
      "[ResWrite ''2]'', Callback ''[1,2]'', ReqCache (JArr [JNum 1, JNum 2]), ResEnd]"]
  by (simp add: serve_def stream_handler_eq deliver_def listener_defs sample_parse_def)

section \<open>The handlers that answer at once\<close>

lemma truthy_iff: "truthy v \<longleftrightarrow> v \<noteq> QUndefined \<and> v \<noteq> QString []"
  by (cases v) simp_all

text \<open>
  Claim C8. On GET /resolve, when the \<open>identifier\<close> parameter of the query string is
  missing or empty, the handler passes the 400 error to \<open>next\<close> and \<open>resolve\<close> is not
  called; for every other identifier, \<open>resolve\<close> is called with the identifier and the
  configuration, its result is sent as JSON, and an error it throws is passed to \<open>next\<close>
  with nothing sent.
\<close>

theorem resolve_requires_identifier:
  "(query_identifier req = QUndefined \<or> query_identifier req = QString [] \<longrightarrow>
      handle GetResolve c req = [Next (HttpError 400 ''missing identifier query string parameter'')] \<and>
      \<not> list_ex resolve_call (handle GetResolve c req)) \<and>
   (query_identifier req \<noteq> QUndefined \<and> query_identifier req \<noteq> QString [] \<longrightarrow>
      filter resolve_call (handle GetResolve c req) = [Resolve (query_identifier req) (config req)] \<and>
      (\<forall>data. resolve c (query_identifier req) (config req) = Inr data \<longrightarrow>
         json_sent (handle GetResolve c req) = [data] \<and> signalled (handle GetResolve c req) = []) \<and>
      (\<forall>err. resolve c (query_identifier req) (config req) = Inl err \<longrightarrow>
         signalled (handle GetResolve c req) = [err] \<and> json_sent (handle GetResolve c req) = []))"
  by (auto simp: get_resolve_def truthy_iff json_sent_def signalled_def split: sum.splits)

text \<open>A DOI that resolves, an identifier that does not, and a request without identifier.\<close>

theorem resolve_requires_identifier_witness:
  "handle GetResolve sample_collaborators (sample_request\<lparr>query_identifier := QUndefined\<rparr>) =
     [Next (HttpError 400 ''missing identifier query string parameter'')] \<and>
   resolve sample_collaborators (QString ''10.1000/xyz'') JNull = Inr (JStr ''metadata'') \<and>
   json_sent (handle GetResolve sample_collaborators sample_request) = [JStr ''metadata''] \<and>
   resolve sample_collaborators (QString ''xyz'') JNull = Inl (Fault ''unresolved'') \<and>
   signalled (handle GetResolve sample_collaborators (sample_request\<lparr>query_identifier := QString ''xyz''\<rparr>)) =
     [Fault ''unresolved'']"
  using resolve_requires_identifier [of "sample_request\<lparr>query_identifier := QUndefined\<rparr>" sample_collaborators]
    resolve_requires_identifier [of sample_request sample_collaborators]
    resolve_requires_identifier [of "sample_request\<lparr>query_identifier := QString ''xyz''\<rparr>" sample_collaborators]
  by (simp add: sample_request_def sample_collaborators_def)

text \<open>
  Claim C9. The handlers of GET /review, GET /request, GET /user and GET /role pass the 500
  error \<open>Not implemented yet\<close> to \<open>next\<close>, whatever the request, and make no call to the
  database.
\<close>

theorem search_routes_not_implemented:
  "r \<in> {GetReview, GetRequest, GetUser, GetRole} \<Longrightarrow>
   handle r c req = [Next (HttpError 500 ''Not implemented yet'')] \<and>
   \<not> list_ex db_call (handle r c req)"
  by (auto simp: get_review_def get_request_def get_user_def get_role_def)

text \<open>GET /user, next to GET /user/1, which does read the database.\<close>

theorem search_routes_not_implemented_witness:
  "GetUser \<in> {GetReview, GetRequest, GetUser, GetRole} \<and>
   handle GetUser sample_collaborators sample_request = [Next (HttpError 500 ''Not implemented yet'')] \<and>
   \<not> list_ex db_call (handle GetUser sample_collaborators sample_request) \<and>
   list_ex db_call (handle GetUserById sample_collaborators sample_request)"
  using search_routes_not_implemented [of GetUser sample_collaborators sample_request]
  by (simp add: get_by_id_def Let_def)

text \<open>
  Claim C10. On POST /action, a request that is not authenticated gets the 401 error
  \<open>Login required\<close> passed to \<open>next\<close> and \<open>req.db.post\<close> is not called; for an
  authenticated request, \<open>req.db.post\<close> is called once with the body and the user, an
  error it throws is passed to \<open>next\<close> with nothing sent, and otherwise the value it
  returns is what \<open>res.json\<close> sends.
\<close>

theorem post_action_requires_login:
  "(\<not> isAuthenticated req \<longrightarrow>
      handle PostAction c req = [Next (HttpError 401 ''Login required'')] \<and>
      \<not> list_ex db_call (handle PostAction c req)) \<and>
   (isAuthenticated req \<longrightarrow>
      filter db_call (handle PostAction c req) = [DbPost (req_body req) (req_user req)] \<and>
      (\<forall>err. db_post c (req_body req) (req_user req) = Inl err \<longrightarrow>
         signalled (handle PostAction c req) = [err] \<and> json_sent (handle PostAction c req) = []) \<and>
      (\<forall>b. db_post c (req_body req) (req_user req) = Inr b \<longrightarrow>
         json_sent (handle PostAction c req) = [b] \<and> signalled (handle PostAction c req) = []))"
  by (auto simp: post_action_def json_sent_def signalled_def split: sum.splits)

text \<open>An anonymous request, an action the database accepts and one it rejects.\<close>

theorem post_action_requires_login_witness:
  "handle PostAction sample_collaborators (sample_request\<lparr>isAuthenticated := False\<rparr>) =
     [Next (HttpError 401 ''Login required'')] \<and>
   db_post sample_collaborators (JStr ''action'') (JStr ''user:1'') = Inr (JObj [(''ok'', JBool True)]) \<and>
   json_sent (handle PostAction sample_collaborators sample_request) = [JObj [(''ok'', JBool True)]] \<and>
   db_post sample_collaborators JNull (JStr ''user:1'') = Inl (HttpError 400 ''invalid action'') \<and>
   signalled (handle PostAction sample_collaborators (sample_request\<lparr>req_body := JNull\<rparr>)) =
     [HttpError 400 ''invalid action''] \<and>
   json_sent (handle PostAction sample_collaborators (sample_request\<lparr>req_body := JNull\<rparr>)) = []"
  using post_action_requires_login [of "sample_request\<lparr>isAuthenticated := False\<rparr>" sample_collaborators]
    post_action_requires_login [of sample_request sample_collaborators]
    post_action_requires_login [of "sample_request\<lparr>req_body := JNull\<rparr>" sample_collaborators]
  by (simp add: sample_request_def sample_collaborators_def)

end
